theory Spec2Isabelle
  imports Main "HOL-Library.Sublist"
begin

section \<open>Data model of \<^verbatim>\<open>backend/ai_generator.py\<close>\<close>

text \<open>
  Tool arguments and tool descriptors are JSON values; a Python dict is an association
  list.
\<close>

datatype json =
    JNull
  | JBool bool
  | JInt int
  | JStr string
  | JList "json list"
  | JDict "(string \<times> json) list"

type_synonym kwargs = "(string \<times> json) list"

type_synonym tool = json

text \<open>
  A content block of a response. The code inspects blocks by attribute: it compares
  \<^verbatim>\<open>content_block.type\<close> with \<^verbatim>\<open>"tool_use"\<close> and asks
  \<^verbatim>\<open>hasattr(content_block, "text")\<close>, independently of each other. The record keeps
  the two apart: \<open>block_text b = None\<close> is a block without the attribute \<^verbatim>\<open>text\<close>.
  The fields \<open>block_id\<close>, \<open>block_name\<close> and \<open>block_input\<close> are read only on blocks of
  type \<^verbatim>\<open>tool_use\<close>.
\<close>

record content_block =
  block_type :: string
  block_text :: "string option"
  block_id :: string
  block_name :: string
  block_input :: kwargs

record response =
  stop_reason :: string
  content :: "content_block list"

text \<open>The dict \<^verbatim>\<open>{"type": "tool_result", "tool_use_id": ..., "content": ...}\<close>.\<close>

record tool_result =
  result_type :: string
  tool_use_id :: string
  result_content :: string

text \<open>
  The value under \<^verbatim>\<open>"content"\<close> of a message is the query string, the block list of a
  response, or the list of tool results of a round.
\<close>

datatype message_content =
    Text string
  | Blocks "content_block list"
  | ToolResults "tool_result list"

record message =
  role :: string
  msg_content :: message_content

text \<open>
  The keyword arguments of \<^verbatim>\<open>client.messages.create\<close>. A key that is absent from
  \<^verbatim>\<open>api_params\<close> is \<open>None\<close>. The code passes the list \<^verbatim>\<open>messages\<close> itself, which it
  extends later; \<open>req_messages\<close> is the value of the list at the call.
\<close>

record request =
  req_model :: string
  req_temperature :: int
  req_max_tokens :: int
  req_messages :: "message list"
  req_system :: string
  req_tools :: "tool list option"
  req_tool_choice :: "(string \<times> string) list option"

text \<open>
  The LLM client and the tool manager are external and may keep state of their own.
  Each is a function on a world \<open>'w\<close> that returns the new world and either a value
  (\<open>Inr\<close>) or the description \<^verbatim>\<open>str(e)\<close> of the \<^verbatim>\<open>Exception\<close> it raised (\<open>Inl\<close>).
\<close>

type_synonym 'w llm_client = "request \<Rightarrow> 'w \<Rightarrow> (string + response) \<times> 'w"

type_synonym 'w tool_manager = "string \<Rightarrow> kwargs \<Rightarrow> 'w \<Rightarrow> (string + string) \<times> 'w"

text \<open>
  The generator object: its client, its model name, and the class attribute
  \<^verbatim>\<open>SYSTEM_PROMPT\<close>, whose text is a field here since no property depends on it.
\<close>

record 'w ai_generator =
  client :: "'w llm_client"
  model :: string
  SYSTEM_PROMPT :: string

text \<open>
  The calls a run makes to its collaborators, in the order they are made. The trace is
  not a variable of the code: it records what the code does, so that the number and the
  arguments of the calls can be stated.
\<close>

datatype event =
    LLMCall request
  | ToolCall string kwargs

text \<open>
  What a run leaves behind: the returned string, the local variables \<^verbatim>\<open>messages\<close> and
  \<^verbatim>\<open>rounds_completed\<close> at the return, the world, and the trace.
\<close>

record 'w outcome =
  answer :: string
  out_messages :: "message list"
  out_rounds :: int
  out_world :: 'w
  out_trace :: "event list"

section \<open>Text extraction\<close>

text \<open>
  The \<^verbatim>\<open>for\<close> loop of \<^verbatim>\<open>_extract_text_from_response\<close>: the text of the first block
  that has the attribute \<^verbatim>\<open>text\<close>, and the sentinel after the last block.
\<close>

fun first_text :: "content_block list \<Rightarrow> string" where
  "first_text [] = ''No text content in response''"
| "first_text (b # bs) = (case block_text b of Some t \<Rightarrow> t | None \<Rightarrow> first_text bs)"

text \<open>
  The \<^verbatim>\<open>try\<close> statement of \<^verbatim>\<open>_extract_text_from_response\<close>. Its argument is what
  reading the blocks gives: the blocks, or (\<open>Inl e\<close>) an exception with description
  \<open>e\<close>, which the \<^verbatim>\<open>except\<close> clause turns into a string.
\<close>

definition extract_text_guarded :: "string + content_block list \<Rightarrow> string" where
  "extract_text_guarded c =
     (case c of
        Inr blocks \<Rightarrow> first_text blocks
      | Inl e \<Rightarrow> ''Error extracting response text: '' @ e)"

definition extract_text_from_response :: "response \<Rightarrow> string" where
  "extract_text_from_response response = extract_text_guarded (Inr (content response))"

section \<open>One tool round\<close>

text \<open>
  The \<^verbatim>\<open>for\<close> loop of \<^verbatim>\<open>_execute_tool_round\<close>, with \<^verbatim>\<open>tool_results\<close> as the
  accumulator. An exception of the tool manager is caught and becomes the content of
  the result.
\<close>

fun tool_loop ::
  "'w tool_manager \<Rightarrow> content_block list \<Rightarrow> tool_result list \<Rightarrow> 'w \<Rightarrow> event list
     \<Rightarrow> tool_result list \<times> 'w \<times> event list" where
  "tool_loop tm [] tool_results w tr = (tool_results, w, tr)"
| "tool_loop tm (b # bs) tool_results w tr =
     (if block_type b = ''tool_use'' then
        (case tm (block_name b) (block_input b) w of
           (Inr res, w') \<Rightarrow>
             tool_loop tm bs
               (tool_results @
                  [\<lparr>result_type = ''tool_result'', tool_use_id = block_id b,
                    result_content = res\<rparr>])
               w' (tr @ [ToolCall (block_name b) (block_input b)])
         | (Inl e, w') \<Rightarrow>
             tool_loop tm bs
               (tool_results @
                  [\<lparr>result_type = ''tool_result'', tool_use_id = block_id b,
                    result_content = ''Error executing tool: '' @ e\<rparr>])
               w' (tr @ [ToolCall (block_name b) (block_input b)]))
      else tool_loop tm bs tool_results w tr)"

text \<open>
  \<^verbatim>\<open>_execute_tool_round\<close>: the list \<^verbatim>\<open>messages\<close> is mutated in place in the code and
  returned here next to the boolean. What the code prints is not modelled.
\<close>

definition execute_tool_round ::
  "response \<Rightarrow> message list \<Rightarrow> 'w tool_manager \<Rightarrow> 'w \<Rightarrow> event list
     \<Rightarrow> bool \<times> message list \<times> 'w \<times> event list" where
  "execute_tool_round response messages tm w tr =
     (let messages1 = messages @ [\<lparr>role = ''assistant'', msg_content = Blocks (content response)\<rparr>]
      in case tool_loop tm (content response) [] w tr of
           (tool_results, w', tr') \<Rightarrow>
             if tool_results \<noteq> [] then
               (True, messages1 @ [\<lparr>role = ''user'', msg_content = ToolResults tool_results\<rparr>],
                w', tr')
             else (False, messages1, w', tr'))"

section \<open>The orchestration loop\<close>

text \<open>Python's truth value of \<^verbatim>\<open>tools\<close>: neither \<^verbatim>\<open>None\<close> nor the empty list.\<close>

definition tools_truthy :: "tool list option \<Rightarrow> bool" where
  "tools_truthy tools = (case tools of None \<Rightarrow> False | Some ts \<Rightarrow> ts \<noteq> [])"

text \<open>
  \<^verbatim>\<open>api_params\<close> of one iteration: the base parameters, the messages, the system
  content, and the tools with the tool choice when \<^verbatim>\<open>tools and tool_manager\<close>.
\<close>

definition api_params ::
  "'w ai_generator \<Rightarrow> string \<Rightarrow> tool list option \<Rightarrow> 'w tool_manager option
     \<Rightarrow> message list \<Rightarrow> request" where
  "api_params g system_content tools tool_manager messages =
     (if tools_truthy tools \<and> tool_manager \<noteq> None then
        \<lparr>req_model = model g, req_temperature = 0, req_max_tokens = 800,
         req_messages = messages, req_system = system_content,
         req_tools = tools, req_tool_choice = Some [(''type'', ''auto'')]\<rparr>
      else
        \<lparr>req_model = model g, req_temperature = 0, req_max_tokens = 800,
         req_messages = messages, req_system = system_content,
         req_tools = None, req_tool_choice = None\<rparr>)"

text \<open>\<^verbatim>\<open>final_params\<close>: the call after the loop, without tools.\<close>

definition final_params :: "'w ai_generator \<Rightarrow> string \<Rightarrow> message list \<Rightarrow> request" where
  "final_params g system_content messages =
     \<lparr>req_model = model g, req_temperature = 0, req_max_tokens = 800,
      req_messages = messages, req_system = system_content,
      req_tools = None, req_tool_choice = None\<rparr>"

text \<open>
  The \<^verbatim>\<open>while\<close> loop of \<^verbatim>\<open>generate_response\<close> together with the final call that
  follows it, from the local state \<^verbatim>\<open>rounds_completed\<close>, \<^verbatim>\<open>messages\<close>.
\<close>

function loop ::
  "'w ai_generator \<Rightarrow> string \<Rightarrow> tool list option \<Rightarrow> 'w tool_manager option \<Rightarrow> int
     \<Rightarrow> int \<Rightarrow> message list \<Rightarrow> 'w \<Rightarrow> event list \<Rightarrow> 'w outcome" where
  "loop g system_content tools tool_manager max_rounds rounds_completed messages w tr =
     (if rounds_completed < max_rounds then
        (case client g (api_params g system_content tools tool_manager messages) w of
           (Inl e, w1) \<Rightarrow>
             \<lparr>answer = ''Error generating response: '' @ e, out_messages = messages,
              out_rounds = rounds_completed, out_world = w1,
              out_trace = tr @ [LLMCall (api_params g system_content tools tool_manager messages)]\<rparr>
         | (Inr response, w1) \<Rightarrow>
             (case tool_manager of
                Some tm \<Rightarrow>
                  if stop_reason response = ''tool_use'' then
                    (case execute_tool_round response messages tm w1
                            (tr @ [LLMCall (api_params g system_content tools tool_manager messages)]) of
                       (tool_executed, messages', w2, tr2) \<Rightarrow>
                         if \<not> tool_executed then
                           \<lparr>answer = extract_text_from_response response,
                            out_messages = messages', out_rounds = rounds_completed,
                            out_world = w2, out_trace = tr2\<rparr>
                         else
                           loop g system_content tools tool_manager max_rounds
                             (rounds_completed + 1) messages' w2 tr2)
                  else
                    \<lparr>answer = extract_text_from_response response, out_messages = messages,
                     out_rounds = rounds_completed, out_world = w1,
                     out_trace = tr @ [LLMCall (api_params g system_content tools tool_manager messages)]\<rparr>
              | None \<Rightarrow>
                  \<lparr>answer = extract_text_from_response response, out_messages = messages,
                   out_rounds = rounds_completed, out_world = w1,
                   out_trace = tr @ [LLMCall (api_params g system_content tools tool_manager messages)]\<rparr>))
      else
        (case client g (final_params g system_content messages) w of
           (Inl e, w1) \<Rightarrow>
             \<lparr>answer = ''Error generating final response: '' @ e, out_messages = messages,
              out_rounds = rounds_completed, out_world = w1,
              out_trace = tr @ [LLMCall (final_params g system_content messages)]\<rparr>
         | (Inr final_response, w1) \<Rightarrow>
             \<lparr>answer = extract_text_from_response final_response, out_messages = messages,
              out_rounds = rounds_completed, out_world = w1,
              out_trace = tr @ [LLMCall (final_params g system_content messages)]\<rparr>))"
  by pat_completeness auto
termination
  by (relation "measure (\<lambda>(g, sc, tools, tm, max_rounds, rounds_completed, ms, w, tr).
                   nat (max_rounds - rounds_completed))") auto

declare loop.simps [simp del]

text \<open>
  \<^verbatim>\<open>generate_response\<close>: the system content (the history is appended when it is neither
  \<^verbatim>\<open>None\<close> nor empty), the first message, and the loop from zero completed rounds.
\<close>

definition system_content_of :: "'w ai_generator \<Rightarrow> string option \<Rightarrow> string" where
  "system_content_of g conversation_history =
     (case conversation_history of
        None \<Rightarrow> SYSTEM_PROMPT g
      | Some h \<Rightarrow>
          if h \<noteq> [] then
            SYSTEM_PROMPT g @ [CHR 0x0A, CHR 0x0A] @ ''Previous conversation:'' @ [CHR 0x0A] @ h
          else SYSTEM_PROMPT g)"

definition generate_response ::
  "'w ai_generator \<Rightarrow> string \<Rightarrow> string option \<Rightarrow> tool list option \<Rightarrow> 'w tool_manager option
     \<Rightarrow> int \<Rightarrow> 'w \<Rightarrow> 'w outcome" where
  "generate_response g query conversation_history tools tool_manager max_rounds w =
     loop g (system_content_of g conversation_history) tools tool_manager max_rounds 0
       [\<lparr>role = ''user'', msg_content = Text query\<rparr>] w []"

section \<open>Reading a trace\<close>

text \<open>The requests sent to the LLM client, and the tool executions, in order.\<close>

fun llm_requests :: "event list \<Rightarrow> request list" where
  "llm_requests [] = []"
| "llm_requests (LLMCall r # es) = r # llm_requests es"
| "llm_requests (ToolCall n a # es) = llm_requests es"

fun tool_calls :: "event list \<Rightarrow> (string \<times> kwargs) list" where
  "tool_calls [] = []"
| "tool_calls (LLMCall r # es) = tool_calls es"
| "tool_calls (ToolCall n a # es) = (n, a) # tool_calls es"

text \<open>The test \<^verbatim>\<open>content_block.type == "tool_use"\<close>.\<close>

definition is_tool_use :: "content_block \<Rightarrow> bool" where
  "is_tool_use b = (block_type b = ''tool_use'')"

text \<open>A request that offers the tool catalog.\<close>

definition offers_tools :: "request \<Rightarrow> bool" where
  "offers_tools r = (req_tools r \<noteq> None)"

text \<open>A request with neither a tool catalog nor a tool choice.\<close>

definition no_catalog :: "request \<Rightarrow> bool" where
  "no_catalog r = (req_tools r = None \<and> req_tool_choice r = None)"


section \<open>The shape of a conversation\<close>

text \<open>
  The roles of a message list alternate, starting with \<open>r\<close>.
\<close>

definition other_role :: "string \<Rightarrow> string" where
  "other_role r = (if r = ''user'' then ''assistant'' else ''user'')"

fun roles_alternate :: "string \<Rightarrow> message list \<Rightarrow> bool" where
  "roles_alternate r [] = True"
| "roles_alternate r (m # ms) = (role m = r \<and> roles_alternate (other_role r) ms)"

text \<open>A user message that holds a non-empty list of tool results.\<close>

definition is_tool_results :: "message \<Rightarrow> bool" where
  "is_tool_results m =
     (role m = ''user'' \<and> (case msg_content m of ToolResults rs \<Rightarrow> rs \<noteq> [] | _ \<Rightarrow> False))"

text \<open>
  The message list after \<open>n\<close> completed tool rounds: the user message with the query,
  then \<open>n\<close> pairs of an assistant message and a user message, the roles alternating,
  and the last message the initial one (\<open>n = 0\<close>) or a user message of tool results.
\<close>

definition conversation_ok :: "string \<Rightarrow> nat \<Rightarrow> message list \<Rightarrow> bool" where
  "conversation_ok query n ms =
     (length ms = 2 * n + 1
      \<and> hd ms = \<lparr>role = ''user'', msg_content = Text query\<rparr>
      \<and> roles_alternate ''user'' ms
      \<and> (if n = 0 then ms = [\<lparr>role = ''user'', msg_content = Text query\<rparr>]
         else is_tool_results (last ms)))"


section \<open>Example inputs\<close>

definition text_block :: "string \<Rightarrow> content_block" where
  "text_block t =
     \<lparr>block_type = ''text'', block_text = Some t, block_id = [], block_name = [],
      block_input = []\<rparr>"

definition tool_use_block :: "string \<Rightarrow> string \<Rightarrow> kwargs \<Rightarrow> content_block" where
  "tool_use_block i n a =
     \<lparr>block_type = ''tool_use'', block_text = None, block_id = i, block_name = n,
      block_input = a\<rparr>"

definition ex_tool_response :: response where
  "ex_tool_response =
     \<lparr>stop_reason = ''tool_use'',
      content =
        [tool_use_block ''t1'' ''get_course_outline'' [(''course_name'', JStr ''MCP'')],
         text_block ''Let me search.'',
         tool_use_block ''t2'' ''search_course_content''
           [(''query'', JStr ''rag''), (''lesson_number'', JInt 2)],
         text_block ''second'']\<rparr>"

text \<open>A tool manager whose outline tool raises and whose other tools succeed.\<close>

definition ex_tool_manager :: "nat tool_manager" where
  "ex_tool_manager name args n =
     (if name = ''get_course_outline'' then (Inl ''outline unavailable'', n)
      else (Inr ''search result'', n))"

definition ex_generator :: "nat llm_client \<Rightarrow> nat ai_generator" where
  "ex_generator c =
     \<lparr>client = c, model = ''claude-sonnet-4-20250514'',
      SYSTEM_PROMPT = ''You are an AI assistant.''\<rparr>"

definition ex_text_response :: response where
  "ex_text_response = \<lparr>stop_reason = ''end_turn'', content = [text_block ''The answer.'']\<rparr>"

text \<open>Clients that count their calls in the world.\<close>

definition eager_client :: "nat llm_client" where
  "eager_client req n = (Inr ex_tool_response, Suc n)"

definition polite_client :: "nat llm_client" where
  "polite_client req n =
     (if req_tools req \<noteq> None then (Inr ex_tool_response, Suc n)
      else (Inr ex_text_response, Suc n))"

definition plain_client :: "nat llm_client" where
  "plain_client req n = (Inr ex_text_response, Suc n)"

definition failing_client :: "nat llm_client" where
  "failing_client req n = (Inl ''connection refused'', Suc n)"

definition degenerate_client :: "nat llm_client" where
  "degenerate_client req n =
     (Inr \<lparr>stop_reason = ''tool_use'', content = [text_block ''partial answer'']\<rparr>, Suc n)"

definition ex_tools :: "tool list" where
  "ex_tools = [JDict [(''name'', JStr ''search_course_content'')],
               JDict [(''name'', JStr ''get_course_outline'')]]"

section \<open>Lemmas on the trace and on the tool loop\<close>

lemma llm_requests_append [simp]: "llm_requests (xs @ ys) = llm_requests xs @ llm_requests ys"
  by (induction xs rule: llm_requests.induct) simp_all

lemma tool_calls_append [simp]: "tool_calls (xs @ ys) = tool_calls xs @ tool_calls ys"
  by (induction xs rule: tool_calls.induct) simp_all

lemma first_text_skip:
  "\<forall>x\<in>set pre. block_text x = None \<Longrightarrow> first_text (pre @ rest) = first_text rest"
  by (induction pre) simp_all

lemma tool_loop_requests:
  "tool_loop tm bs acc w tr = (rs, w', tr') \<Longrightarrow> llm_requests tr' = llm_requests tr"
  by (induction bs arbitrary: acc w tr) (auto split: if_splits prod.splits sum.splits)

lemma tool_loop_calls:
  "tool_loop tm bs acc w tr = (rs, w', tr') \<Longrightarrow>
     tool_calls tr' = tool_calls tr @ map (\<lambda>b. (block_name b, block_input b)) (filter is_tool_use bs)"
  by (induction bs arbitrary: acc w tr) (auto simp: is_tool_use_def split: if_splits prod.splits sum.splits)

lemma tool_loop_ids:
  "tool_loop tm bs acc w tr = (rs, w', tr') \<Longrightarrow>
     map tool_use_id rs = map tool_use_id acc @ map block_id (filter is_tool_use bs)"
  by (induction bs arbitrary: acc w tr) (auto simp: is_tool_use_def split: if_splits prod.splits sum.splits)

lemma tool_loop_types:
  "tool_loop tm bs acc w tr = (rs, w', tr') \<Longrightarrow> list_all (\<lambda>r. result_type r = ''tool_result'') acc
     \<Longrightarrow> list_all (\<lambda>r. result_type r = ''tool_result'') rs"
proof (induction bs arbitrary: acc w tr)
  case Nil
  then show ?case by simp
next
  case (Cons b bs)
  show ?case
  proof (cases "block_type b = ''tool_use''")
    case False
    with Cons.prems Cons.IH [of acc w tr] show ?thesis by simp
  next
    case True
    obtain x w1 where x: "tm (block_name b) (block_input b) w = (x, w1)"
      by (cases "tm (block_name b) (block_input b) w")
    show ?thesis
    proof (cases x)
      case (Inl e)
      with Cons.prems True x Cons.IH [of "acc @ [\<lparr>result_type = ''tool_result'', tool_use_id = block_id b,
                    result_content = ''Error executing tool: '' @ e\<rparr>]" w1 "tr @ [ToolCall (block_name b) (block_input b)]"]
      show ?thesis by simp
    next
      case (Inr res)
      with Cons.prems True x Cons.IH [of "acc @ [\<lparr>result_type = ''tool_result'', tool_use_id = block_id b,
                    result_content = res\<rparr>]" w1 "tr @ [ToolCall (block_name b) (block_input b)]"]
      show ?thesis by simp
    qed
  qed
qed

lemma tool_loop_append:
  "tool_loop tm (pre @ post) acc w tr =
     (case tool_loop tm pre acc w tr of (rs, w', tr') \<Rightarrow> tool_loop tm post rs w' tr')"
  by (induction pre arbitrary: acc w tr) (auto split: if_splits prod.splits sum.splits)

lemma tool_loop_acc:
  "tool_loop tm bs acc w tr =
     (case tool_loop tm bs [] w tr of (new, w', tr') \<Rightarrow> (acc @ new, w', tr'))"
proof (induction bs arbitrary: acc w tr)
  case Nil
  show ?case by simp
next
  case (Cons b bs)
  show ?case
  proof (cases "block_type b = ''tool_use''")
    case False
    then show ?thesis using Cons.IH [of acc w tr] by simp
  next
    case True
    obtain x w1 where x: "tm (block_name b) (block_input b) w = (x, w1)"
      by (cases "tm (block_name b) (block_input b) w")
    define c where "c = (case x of Inr res \<Rightarrow> res | Inl e \<Rightarrow> ''Error executing tool: '' @ e)"
    define r where "r = \<lparr>result_type = ''tool_result'', tool_use_id = block_id b, result_content = c\<rparr>"
    define tr1 where "tr1 = tr @ [ToolCall (block_name b) (block_input b)]"
    have step: "tool_loop tm (b # bs) a w tr = tool_loop tm bs (a @ [r]) w1 tr1" for a
      using True x by (cases x) (simp_all add: r_def c_def tr1_def)
    obtain new w' tr' where n: "tool_loop tm bs [] w1 tr1 = (new, w', tr')"
      by (metis prod_cases3)
    have "tool_loop tm (b # bs) acc w tr = ((acc @ [r]) @ new, w', tr')"
      using step [of acc] Cons.IH [of "acc @ [r]" w1 tr1] n by simp
    moreover have "tool_loop tm (b # bs) [] w tr = ([r] @ new, w', tr')"
      using step [of "[]"] Cons.IH [of "[r]" w1 tr1] n by simp
    ultimately show ?thesis by simp
  qed
qed

section \<open>Lemmas on the orchestration loop\<close>

lemma final_params_no_tools [simp]:
  "req_tools (final_params g sc ms) = None" "req_tool_choice (final_params g sc ms) = None"
  "req_messages (final_params g sc ms) = ms" "req_system (final_params g sc ms) = sc"
  by (simp_all add: final_params_def)

lemma api_params_messages [simp]:
  "req_messages (api_params g sc tools tm ms) = ms" "req_system (api_params g sc tools tm ms) = sc"
  by (simp_all add: api_params_def)

lemma execute_tool_round_requests:
  "execute_tool_round response ms tm w tr = (ex, ms', w', tr') \<Longrightarrow> llm_requests tr' = llm_requests tr"
  by (auto simp: execute_tool_round_def Let_def split: prod.splits if_splits dest: tool_loop_requests)

lemma loop_exit:
  "\<not> rc < k \<Longrightarrow>
   loop g sc tools tm k rc ms w tr =
     (case client g (final_params g sc ms) w of
        (Inl e, w1) \<Rightarrow>
          \<lparr>answer = ''Error generating final response: '' @ e, out_messages = ms,
           out_rounds = rc, out_world = w1,
           out_trace = tr @ [LLMCall (final_params g sc ms)]\<rparr>
      | (Inr final_response, w1) \<Rightarrow>
          \<lparr>answer = extract_text_from_response final_response, out_messages = ms,
           out_rounds = rc, out_world = w1,
           out_trace = tr @ [LLMCall (final_params g sc ms)]\<rparr>)"
  by (subst loop.simps) simp

lemma loop_exit_trace:
  "\<not> rc < k \<Longrightarrow> out_trace (loop g sc tools tm k rc ms w tr) = tr @ [LLMCall (final_params g sc ms)]"
  by (simp add: loop_exit split: prod.splits sum.splits)

lemma loop_error:
  "rc < k \<Longrightarrow> client g (api_params g sc tools tm ms) w = (Inl e, w1) \<Longrightarrow>
   loop g sc tools tm k rc ms w tr =
     \<lparr>answer = ''Error generating response: '' @ e, out_messages = ms, out_rounds = rc,
      out_world = w1, out_trace = tr @ [LLMCall (api_params g sc tools tm ms)]\<rparr>"
  by (subst loop.simps) simp

lemma loop_plain:
  "rc < k \<Longrightarrow> client g (api_params g sc tools tm ms) w = (Inr response, w1) \<Longrightarrow>
   tm = None \<or> stop_reason response \<noteq> ''tool_use'' \<Longrightarrow>
   loop g sc tools tm k rc ms w tr =
     \<lparr>answer = extract_text_from_response response, out_messages = ms, out_rounds = rc,
      out_world = w1, out_trace = tr @ [LLMCall (api_params g sc tools tm ms)]\<rparr>"
  by (subst loop.simps) (auto split: option.splits)

lemma loop_degenerate:
  "rc < k \<Longrightarrow> client g (api_params g sc tools (Some m) ms) w = (Inr response, w1) \<Longrightarrow>
   stop_reason response = ''tool_use'' \<Longrightarrow>
   execute_tool_round response ms m w1 (tr @ [LLMCall (api_params g sc tools (Some m) ms)])
     = (False, ms', w2, tr2) \<Longrightarrow>
   loop g sc tools (Some m) k rc ms w tr =
     \<lparr>answer = extract_text_from_response response, out_messages = ms', out_rounds = rc,
      out_world = w2, out_trace = tr2\<rparr>"
  by (subst loop.simps) simp

lemma loop_round:
  "rc < k \<Longrightarrow> client g (api_params g sc tools (Some m) ms) w = (Inr response, w1) \<Longrightarrow>
   stop_reason response = ''tool_use'' \<Longrightarrow>
   execute_tool_round response ms m w1 (tr @ [LLMCall (api_params g sc tools (Some m) ms)])
     = (True, ms', w2, tr2) \<Longrightarrow>
   loop g sc tools (Some m) k rc ms w tr = loop g sc tools (Some m) k (rc + 1) ms' w2 tr2"
  by (subst loop.simps) simp


lemma loop_state_induct:
  fixes k :: int and g :: "'w ai_generator"
  assumes step: "\<And>rc ms w tr.
      (\<And>response w1 m ms' w2 tr2.
          rc < k \<Longrightarrow> tm = Some m \<Longrightarrow>
          client g (api_params g sc tools tm ms) w = (Inr response, w1) \<Longrightarrow>
          stop_reason response = ''tool_use'' \<Longrightarrow>
          execute_tool_round response ms m w1 (tr @ [LLMCall (api_params g sc tools tm ms)])
            = (True, ms', w2, tr2) \<Longrightarrow>
          P (rc + 1) ms' w2 tr2) \<Longrightarrow>
      P rc ms w tr"
  shows "P rc ms w tr"
proof (induction "nat (k - rc)" arbitrary: rc ms w tr)
  case 0
  then have "\<not> rc < k" by simp
  then show ?case by - (rule step, simp)
next
  case (Suc n)
  then have "n = nat (k - (rc + 1))" by simp
  then have "P (rc + 1) ms' w2 tr2" for ms' w2 tr2 by (rule Suc.hyps(1))
  then show ?case by - (rule step)
qed

lemma loop_cases [case_names Exit Error Plain Degenerate Round]:
  fixes rc k :: int and g :: "'w ai_generator" and tm :: "'w tool_manager option"
  obtains
    (Exit) "\<not> rc < k"
  | (Error) e w1 where "rc < k" "client g (api_params g sc tools tm ms) w = (Inl e, w1)"
  | (Plain) response w1 where "rc < k"
      "client g (api_params g sc tools tm ms) w = (Inr response, w1)"
      "tm = None \<or> stop_reason response \<noteq> ''tool_use''"
  | (Degenerate) response w1 m ms' w2 tr2 where "rc < k" "tm = Some m"
      "client g (api_params g sc tools tm ms) w = (Inr response, w1)"
      "stop_reason response = ''tool_use''"
      "execute_tool_round response ms m w1 (tr @ [LLMCall (api_params g sc tools tm ms)])
         = (False, ms', w2, tr2)"
  | (Round) response w1 m ms' w2 tr2 where "rc < k" "tm = Some m"
      "client g (api_params g sc tools tm ms) w = (Inr response, w1)"
      "stop_reason response = ''tool_use''"
      "execute_tool_round response ms m w1 (tr @ [LLMCall (api_params g sc tools tm ms)])
         = (True, ms', w2, tr2)"
proof (cases "rc < k")
  case False
  then show ?thesis by (rule Exit)
next
  case lt: True
  obtain x w1 where c: "client g (api_params g sc tools tm ms) w = (x, w1)"
    by (cases "client g (api_params g sc tools tm ms) w")
  show ?thesis
  proof (cases x)
    case (Inl e)
    with lt c show ?thesis by (auto intro: Error)
  next
    case (Inr response)
    show ?thesis
    proof (cases "tm = None \<or> stop_reason response \<noteq> ''tool_use''")
      case True
      with lt c Inr show ?thesis by (auto intro: Plain)
    next
      case False
      then obtain m where m: "tm = Some m" and sr: "stop_reason response = ''tool_use''" by auto
      obtain ex ms' w2 tr2 where r:
        "execute_tool_round response ms m w1 (tr @ [LLMCall (api_params g sc tools tm ms)])
           = (ex, ms', w2, tr2)"
        by (metis prod_cases4)
      show ?thesis
      proof (cases ex)
        case True
        with lt c Inr m sr r show ?thesis by (auto intro: Round)
      next
        case False
        with lt c Inr m sr r show ?thesis by (auto intro: Degenerate)
      qed
    qed
  qed
qed

lemma count_snoc:
  "length (llm_requests (tr @ [LLMCall r])) = Suc (length (llm_requests tr))"
  "length (filter offers_tools (llm_requests (tr @ [LLMCall r])))
     \<le> Suc (length (filter offers_tools (llm_requests tr)))"
  by simp_all

lemma loop_call_bounds:
  "length (llm_requests (out_trace (loop g sc tools tm k rc ms w tr)))
     \<le> length (llm_requests tr) + nat (k - rc) + 1
   \<and> length (filter offers_tools (llm_requests (out_trace (loop g sc tools tm k rc ms w tr))))
     \<le> length (filter offers_tools (llm_requests tr)) + nat (k - rc)"
proof (induction rc ms w tr rule: loop_state_induct [where g = g and sc = sc and tools = tools and tm = tm and k = k])
  case (1 rc ms w tr)
  let ?req = "api_params g sc tools tm ms"
  have one_call: "out_trace (loop g sc tools tm k rc ms w tr) = tr @ [LLMCall ?req] \<Longrightarrow> rc < k \<Longrightarrow> ?case"
  proof -
    assume t: "out_trace (loop g sc tools tm k rc ms w tr) = tr @ [LLMCall ?req]" and lt: "rc < k"
    from lt have "Suc 0 \<le> nat (k - rc)" by simp
    then show ?thesis unfolding t using count_snoc [of tr ?req] by linarith
  qed
  show ?case
  proof (cases rule: loop_cases [where rc = rc and k = k and g = g and sc = sc and tools = tools
        and tm = tm and ms = ms and w = w and tr = tr])
    case Exit
    then show ?thesis by (simp add: loop_exit_trace offers_tools_def)
  next
    case (Error e w1)
    then show ?thesis by (intro one_call) (simp_all add: loop_error)
  next
    case (Plain response w1)
    then show ?thesis by (intro one_call) (simp_all add: loop_plain)
  next
    case (Degenerate response w1 m ms' w2 tr2)
    have t: "out_trace (loop g sc tools tm k rc ms w tr) = tr2"
      using Degenerate by (simp add: loop_degenerate)
    have rq: "llm_requests tr2 = llm_requests (tr @ [LLMCall ?req])"
      using execute_tool_round_requests [OF Degenerate(5)] .
    from Degenerate(1) have "Suc 0 \<le> nat (k - rc)" by simp
    then show ?thesis unfolding t rq using count_snoc [of tr ?req] by linarith
  next
    case (Round response w1 m ms' w2 tr2)
    have eq: "loop g sc tools tm k rc ms w tr = loop g sc tools tm k (rc + 1) ms' w2 tr2"
      using Round by (simp add: loop_round)
    have rq: "llm_requests tr2 = llm_requests (tr @ [LLMCall ?req])"
      using execute_tool_round_requests [OF Round(5)] .
    have n: "nat (k - rc) = Suc (nat (k - (rc + 1)))" using Round(1) by simp
    from "1" [OF Round] show ?thesis unfolding eq rq n using count_snoc [of tr ?req] by linarith
  qed
qed

lemma tool_loop_no_tool_use:
  "filter is_tool_use bs = [] \<Longrightarrow> tool_loop tm bs acc w tr = (acc, w, tr)"
  by (induction bs) (simp_all add: is_tool_use_def split: if_splits)

lemma execute_tool_round_none:
  "filter is_tool_use (content response) = [] \<Longrightarrow>
   execute_tool_round response ms tm w tr =
     (False, ms @ [\<lparr>role = ''assistant'', msg_content = Blocks (content response)\<rparr>], w, tr)"
  by (simp add: execute_tool_round_def tool_loop_no_tool_use)

lemma execute_tool_round_calls:
  "execute_tool_round response ms tm w tr = (ex, ms', w', tr') \<Longrightarrow>
   tool_calls tr' = tool_calls tr
      @ map (\<lambda>b. (block_name b, block_input b)) (filter is_tool_use (content response))"
  by (auto simp: execute_tool_round_def Let_def split: prod.splits if_splits dest: tool_loop_calls)

lemma execute_tool_round_messages:
  "execute_tool_round response ms tm w tr = (ex, ms', w', tr') \<Longrightarrow>
   (if ex then \<exists>rs. rs \<noteq> [] \<and> ms' = ms @ [\<lparr>role = ''assistant'', msg_content = Blocks (content response)\<rparr>,
                              \<lparr>role = ''user'', msg_content = ToolResults rs\<rparr>]
    else ms' = ms @ [\<lparr>role = ''assistant'', msg_content = Blocks (content response)\<rparr>])"
  by (auto simp: execute_tool_round_def Let_def split: prod.splits if_splits)

lemma tool_loop_failing_block:
  assumes b: "is_tool_use b"
    and pre: "tool_loop m pre [] w1 tr1 = (rs1, w2, tr2)"
    and fail: "m (block_name b) (block_input b) w2 = (Inl e, w3)"
    and post: "tool_loop m post [] w3 (tr2 @ [ToolCall (block_name b) (block_input b)]) = (rs3, w4, tr4)"
  shows "tool_loop m (pre @ b # post) [] w1 tr1 =
     (rs1 @ \<lparr>result_type = ''tool_result'', tool_use_id = block_id b,
              result_content = ''Error executing tool: '' @ e\<rparr> # rs3, w4, tr4)"
proof -
  let ?r = "\<lparr>result_type = ''tool_result'', tool_use_id = block_id b,
              result_content = ''Error executing tool: '' @ e\<rparr>"
  have "tool_loop m (pre @ b # post) [] w1 tr1 = tool_loop m (b # post) rs1 w2 tr2"
    by (simp add: tool_loop_append pre)
  also have "\<dots> = tool_loop m post (rs1 @ [?r]) w3 (tr2 @ [ToolCall (block_name b) (block_input b)])"
    using b fail by (simp add: is_tool_use_def)
  also have "\<dots> = ((rs1 @ [?r]) @ rs3, w4, tr4)"
    by (subst tool_loop_acc) (simp add: post)
  finally show ?thesis by simp
qed

lemma loop_tools_cong:
  assumes "\<And>ms. api_params g sc t1 tm ms = api_params g sc t2 tm ms"
  shows "loop g sc t1 tm k rc ms w tr = loop g sc t2 tm k rc ms w tr"
proof (induction rc ms w tr rule: loop_state_induct [where g = g and sc = sc and tools = t2 and tm = tm and k = k])
  case (1 rc ms w tr)
  note p = assms [of ms]
  show ?case
  proof (cases rule: loop_cases [where rc = rc and k = k and g = g and sc = sc and tools = t2
        and tm = tm and ms = ms and w = w and tr = tr])
    case Exit
    then show ?thesis by (simp add: loop_exit)
  next
    case (Error e w1)
    then show ?thesis by (simp add: loop_error p)
  next
    case (Plain response w1)
    then show ?thesis by (simp add: loop_plain p)
  next
    case (Degenerate response w1 m ms' w2 tr2)
    have p': "api_params g sc t1 (Some m) ms = api_params g sc t2 (Some m) ms"
      using p Degenerate(2) by simp
    have "loop g sc t2 (Some m) k rc ms w tr = loop g sc t1 (Some m) k rc ms w tr"
      using Degenerate by (simp add: loop_degenerate p')
    then show ?thesis using Degenerate(2) by simp
  next
    case (Round response w1 m ms' w2 tr2)
    have p': "api_params g sc t1 (Some m) ms = api_params g sc t2 (Some m) ms"
      using p Round(2) by simp
    have "loop g sc t2 (Some m) k rc ms w tr = loop g sc t2 (Some m) k (rc + 1) ms' w2 tr2"
      using Round by (simp add: loop_round)
    moreover have "loop g sc t1 (Some m) k rc ms w tr = loop g sc t1 (Some m) k (rc + 1) ms' w2 tr2"
      using Round by (simp add: loop_round p')
    ultimately show ?thesis using "1" [OF Round] Round(2) by simp
  qed
qed

lemma loop_no_catalog:
  assumes "\<not> (tools_truthy tools \<and> tm \<noteq> None)"
  shows "list_all no_catalog (llm_requests tr) \<Longrightarrow>
     list_all no_catalog (llm_requests (out_trace (loop g sc tools tm k rc ms w tr)))"
proof (induction rc ms w tr rule: loop_state_induct [where g = g and sc = sc and tools = tools and tm = tm and k = k])
  case (1 rc ms w tr)
  let ?req = "api_params g sc tools tm ms"
  have nc: "no_catalog ?req" using assms by (auto simp: api_params_def no_catalog_def)
  have nf: "no_catalog (final_params g sc ms)" by (simp add: no_catalog_def)
  show ?case
  proof (cases rule: loop_cases [where rc = rc and k = k and g = g and sc = sc and tools = tools
        and tm = tm and ms = ms and w = w and tr = tr])
    case Exit
    then show ?thesis using "1.prems" nf by (simp add: loop_exit_trace)
  next
    case (Error e w1)
    then show ?thesis using "1.prems" nc by (simp add: loop_error)
  next
    case (Plain response w1)
    then show ?thesis using "1.prems" nc by (simp add: loop_plain)
  next
    case (Degenerate response w1 m ms' w2 tr2)
    have t: "out_trace (loop g sc tools tm k rc ms w tr) = tr2"
      using Degenerate by (simp add: loop_degenerate)
    show ?thesis unfolding t using execute_tool_round_requests [OF Degenerate(5)] "1.prems" nc by simp
  next
    case (Round response w1 m ms' w2 tr2)
    have eq: "loop g sc tools tm k rc ms w tr = loop g sc tools tm k (rc + 1) ms' w2 tr2"
      using Round by (simp add: loop_round)
    have "list_all no_catalog (llm_requests tr2)"
      using execute_tool_round_requests [OF Round(5)] "1.prems" nc by simp
    from "1.IH" [OF Round this] show ?thesis unfolding eq .
  qed
qed

lemma loop_no_manager_calls:
  "tool_calls (out_trace (loop g sc tools None k rc ms w tr)) = tool_calls tr"
proof (cases rule: loop_cases [where rc = rc and k = k and g = g and sc = sc and tools = tools
        and tm = None and ms = ms and w = w and tr = tr])
  case Exit
  then show ?thesis by (simp add: loop_exit_trace)
next
  case (Error e w1)
  then show ?thesis by (simp add: loop_error)
next
  case (Plain response w1)
  then show ?thesis by (simp add: loop_plain)
next
  case (Degenerate response w1 m ms' w2 tr2)
  then show ?thesis by simp
next
  case (Round response w1 m ms' w2 tr2)
  then show ?thesis by simp
qed

lemma loop_manager_unused:
  assumes quiet: "\<And>req w0 r w1. client g req w0 = (Inr r, w1) \<Longrightarrow> stop_reason r \<noteq> ''tool_use''"
    and nt: "\<not> tools_truthy tools"
  shows "loop g sc tools (Some m) k rc ms w tr = loop g sc tools None k rc ms w tr"
proof -
  have p: "api_params g sc tools (Some m) ms = api_params g sc tools None ms"
    using nt by (simp add: api_params_def)
  show ?thesis
  proof (cases rule: loop_cases [where rc = rc and k = k and g = g and sc = sc and tools = tools
        and tm = None and ms = ms and w = w and tr = tr])
    case Exit
    then show ?thesis by (simp add: loop_exit)
  next
    case (Error e w1)
    then show ?thesis by (simp add: loop_error p)
  next
    case (Plain response w1)
    from quiet [OF Plain(2)] have "stop_reason response \<noteq> ''tool_use''" .
    with Plain show ?thesis by (simp add: loop_plain p)
  next
    case (Degenerate response w1 m ms' w2 tr2)
    then show ?thesis by simp
  next
    case (Round response w1 m ms' w2 tr2)
    then show ?thesis by simp
  qed
qed

text \<open>Unfolding the definitions on concrete inputs.\<close>

lemmas run_eval = generate_response_def loop.simps system_content_of_def api_params_def
  final_params_def tools_truthy_def execute_tool_round_def extract_text_from_response_def
  extract_text_guarded_def

lemmas ex_eval = ex_generator_def eager_client_def polite_client_def plain_client_def
  failing_client_def degenerate_client_def ex_tool_response_def ex_text_response_def
  ex_tool_manager_def ex_tools_def tool_use_block_def text_block_def


section \<open>Lemmas on the shape of the conversation\<close>

lemma roles_alternate_append:
  "r = ''user'' \<or> r = ''assistant'' \<Longrightarrow>
   roles_alternate r (ms @ xs) =
     (roles_alternate r ms \<and> roles_alternate (if even (length ms) then r else other_role r) xs)"
proof (induction ms arbitrary: r)
  case Nil
  then show ?case by simp
next
  case (Cons m ms)
  have o: "other_role r = ''user'' \<or> other_role r = ''assistant''" by (simp add: other_role_def)
  have oo: "other_role (other_role r) = r" using Cons.prems by (auto simp: other_role_def)
  show ?case using Cons.IH [OF o] by (auto simp: oo)
qed

lemma conversation_ok_initial:
  "conversation_ok query 0 [\<lparr>role = ''user'', msg_content = Text query\<rparr>]"
  by (simp add: conversation_ok_def)

lemma conversation_ok_alternate: "conversation_ok query n ms \<Longrightarrow> roles_alternate ''user'' ms"
  by (simp add: conversation_ok_def)

lemma conversation_ok_assistant:
  assumes "conversation_ok query n ms" and "role a = ''assistant''"
  shows "roles_alternate ''user'' (ms @ [a])"
proof -
  from assms(1) have "roles_alternate ''user'' ms" "odd (length ms)"
    by (simp_all add: conversation_ok_def)
  then show ?thesis using assms(2) by (simp add: roles_alternate_append other_role_def)
qed

lemma conversation_ok_round:
  assumes "conversation_ok query n ms" and "role a = ''assistant''" and "is_tool_results u"
  shows "conversation_ok query (Suc n) (ms @ [a, u])"
proof -
  from assms(1) have ra: "roles_alternate ''user'' ms" and len: "length ms = 2 * n + 1"
    and h: "hd ms = \<lparr>role = ''user'', msg_content = Text query\<rparr>"
    by (simp_all add: conversation_ok_def)
  from len have ne: "ms \<noteq> []" by auto
  from len have odd: "odd (length ms)" by simp
  have u: "role u = ''user''" using assms(3) by (simp add: is_tool_results_def)
  have "roles_alternate ''user'' (ms @ [a, u])"
    using ra odd assms(2) u by (simp add: roles_alternate_append other_role_def)
  moreover have "hd (ms @ [a, u]) = \<lparr>role = ''user'', msg_content = Text query\<rparr>"
    using ne h by simp
  moreover have "length (ms @ [a, u]) = 2 * Suc n + 1" using len by simp
  ultimately show ?thesis using assms(3) by (simp add: conversation_ok_def)
qed

lemma history_snoc:
  assumes hist: "\<forall>i<length reqs. conversation_ok q i (req_messages (reqs ! i))
                    \<and> prefix (req_messages (reqs ! i)) ms"
    and cur: "conversation_ok q (length reqs) (req_messages r)"
    and pre: "prefix ms ms'" "prefix (req_messages r) ms'"
  shows "\<forall>i<length (reqs @ [r]). conversation_ok q i (req_messages ((reqs @ [r]) ! i))
                    \<and> prefix (req_messages ((reqs @ [r]) ! i)) ms'"
proof (intro allI impI)
  fix i assume "i < length (reqs @ [r])"
  then consider "i < length reqs" | "i = length reqs" by fastforce
  then show "conversation_ok q i (req_messages ((reqs @ [r]) ! i))
                    \<and> prefix (req_messages ((reqs @ [r]) ! i)) ms'"
  proof cases
    case 1
    with hist have "conversation_ok q i (req_messages (reqs ! i))" "prefix (req_messages (reqs ! i)) ms"
      by simp_all
    with 1 pre(1) show ?thesis by (auto simp: nth_append intro: prefix_order.trans)
  next
    case 2
    with cur pre(2) show ?thesis by simp
  qed
qed

lemma loop_conversation:
  fixes g :: "'w ai_generator"
  shows "conversation_ok q (length (llm_requests tr)) ms \<Longrightarrow>
     (\<forall>i<length (llm_requests tr). conversation_ok q i (req_messages (llm_requests tr ! i))
         \<and> prefix (req_messages (llm_requests tr ! i)) ms) \<Longrightarrow>
     int (length (llm_requests tr)) = rc \<Longrightarrow>
     (\<forall>i<length (llm_requests (out_trace (loop g sc tools tm k rc ms w tr))).
         conversation_ok q i
           (req_messages (llm_requests (out_trace (loop g sc tools tm k rc ms w tr)) ! i))
         \<and> prefix (req_messages (llm_requests (out_trace (loop g sc tools tm k rc ms w tr)) ! i))
             (out_messages (loop g sc tools tm k rc ms w tr)))
     \<and> roles_alternate ''user'' (out_messages (loop g sc tools tm k rc ms w tr))
     \<and> int (length (llm_requests (out_trace (loop g sc tools tm k rc ms w tr))))
         = out_rounds (loop g sc tools tm k rc ms w tr) + 1"
proof (induction rc ms w tr rule: loop_state_induct [where g = g and sc = sc and tools = tools and tm = tm and k = k])
  case (1 rc ms w tr)
  let ?req = "api_params g sc tools tm ms"
  let ?fin = "final_params g sc ms"
  let ?R = "loop g sc tools tm k rc ms w tr"
  note cur = "1.prems"(1) and hist = "1.prems"(2) and cnt = "1.prems"(3)
  have stop: ?case
    if t: "llm_requests (out_trace ?R) = llm_requests tr @ [r]" and r: "req_messages r = ms"
      and m: "prefix ms (out_messages ?R)" and a: "roles_alternate ''user'' (out_messages ?R)"
      and n: "out_rounds ?R = rc" for r
  proof -
    have c: "conversation_ok q (length (llm_requests tr)) (req_messages r)" using cur r by simp
    have p: "prefix (req_messages r) (out_messages ?R)" using m r by simp
    from history_snoc [OF hist c m p] a n cnt show ?thesis unfolding t by simp
  qed
  show ?case
  proof (cases rule: loop_cases [where rc = rc and k = k and g = g and sc = sc and tools = tools
        and tm = tm and ms = ms and w = w and tr = tr])
    case Exit
    show ?thesis
    proof (rule stop [of ?fin])
      show "llm_requests (out_trace ?R) = llm_requests tr @ [?fin]"
        using Exit by (simp add: loop_exit_trace)
      show "req_messages ?fin = ms" by simp
      have om: "out_messages ?R = ms" using Exit by (simp add: loop_exit split: prod.splits sum.splits)
      show "prefix ms (out_messages ?R)" by (simp add: om)
      show "roles_alternate ''user'' (out_messages ?R)"
        using conversation_ok_alternate [OF cur] by (simp add: om)
      show "out_rounds ?R = rc" using Exit by (simp add: loop_exit split: prod.splits sum.splits)
    qed
  next
    case (Error e w1)
    note l = loop_error [OF Error, of tr]
    show ?thesis
      by (rule stop [of ?req]) (simp_all add: l conversation_ok_alternate [OF cur])
  next
    case (Plain response w1)
    note l = loop_plain [OF Plain, of tr]
    show ?thesis
      by (rule stop [of ?req]) (simp_all add: l conversation_ok_alternate [OF cur])
  next
    case (Degenerate response w1 m ms' w2 tr2)
    have l: "?R = \<lparr>answer = extract_text_from_response response, out_messages = ms',
                   out_rounds = rc, out_world = w2, out_trace = tr2\<rparr>"
      using Degenerate by (simp add: loop_degenerate)
    have rq: "llm_requests tr2 = llm_requests tr @ [?req]"
      using execute_tool_round_requests [OF Degenerate(5)] Degenerate(2) by simp
    have ms': "ms' = ms @ [\<lparr>role = ''assistant'', msg_content = Blocks (content response)\<rparr>]"
      using execute_tool_round_messages [OF Degenerate(5)] by simp
    show ?thesis
    proof (rule stop [of ?req])
      show "llm_requests (out_trace ?R) = llm_requests tr @ [?req]" by (simp add: l rq)
      show "req_messages ?req = ms" by simp
      show "prefix ms (out_messages ?R)" by (simp add: l ms')
      show "roles_alternate ''user'' (out_messages ?R)"
        unfolding l ms' using conversation_ok_assistant [OF cur] by simp
      show "out_rounds ?R = rc" by (simp add: l)
    qed
  next
    case (Round response w1 m ms' w2 tr2)
    have eq: "?R = loop g sc tools tm k (rc + 1) ms' w2 tr2"
      using Round by (simp add: loop_round)
    have rq: "llm_requests tr2 = llm_requests tr @ [?req]"
      using execute_tool_round_requests [OF Round(5)] Round(2) by simp
    from execute_tool_round_messages [OF Round(5)] obtain rs where rs: "rs \<noteq> []"
      and ms': "ms' = ms @ [\<lparr>role = ''assistant'', msg_content = Blocks (content response)\<rparr>,
                           \<lparr>role = ''user'', msg_content = ToolResults rs\<rparr>]"
      by auto
    have cur': "conversation_ok q (length (llm_requests tr2)) ms'"
      unfolding rq ms' using conversation_ok_round [OF cur, of _ "\<lparr>role = ''user'', msg_content = ToolResults rs\<rparr>"] rs
      by (simp add: is_tool_results_def)
    have c: "conversation_ok q (length (llm_requests tr)) (req_messages ?req)" using cur by simp
    have hist': "\<forall>i<length (llm_requests tr2). conversation_ok q i (req_messages (llm_requests tr2 ! i))
         \<and> prefix (req_messages (llm_requests tr2 ! i)) ms'"
      unfolding rq by (rule history_snoc [OF hist c]) (simp_all add: ms')
    have cnt': "int (length (llm_requests tr2)) = rc + 1" using cnt by (simp add: rq)
    from "1.IH" [OF Round cur' hist' cnt'] show ?thesis unfolding eq .
  qed
qed

section \<open>Properties\<close>

text \<open>
  C8. Text extraction returns the text of the first content block that has a text,
  whatever blocks follow it; when no block has a text it returns the sentinel
  \<^verbatim>\<open>No text content in response\<close>; and an exception raised while the blocks are read
  is turned into the string \<^verbatim>\<open>Error extracting response text: \<close> followed by its
  description instead of being propagated.
\<close>

theorem extract_text_first_text_block:
  "(content r = pre @ b # post \<longrightarrow> (\<forall>x\<in>set pre. block_text x = None) \<longrightarrow> block_text b = Some t
      \<longrightarrow> extract_text_from_response r = t)
   \<and> ((\<forall>x\<in>set (content r). block_text x = None)
      \<longrightarrow> extract_text_from_response r = ''No text content in response'')
   \<and> extract_text_guarded (Inl e) = ''Error extracting response text: '' @ e"
proof (intro conjI impI)
  assume "content r = pre @ b # post" "\<forall>x\<in>set pre. block_text x = None" "block_text b = Some t"
  then show "extract_text_from_response r = t"
    by (simp add: extract_text_from_response_def extract_text_guarded_def first_text_skip)
next
  assume "\<forall>x\<in>set (content r). block_text x = None"
  then have "first_text (content r @ []) = first_text []" by (rule first_text_skip)
  then show "extract_text_from_response r = ''No text content in response''"
    by (simp add: extract_text_from_response_def extract_text_guarded_def)
next
  show "extract_text_guarded (Inl e) = ''Error extracting response text: '' @ e"
    by (simp add: extract_text_guarded_def)
qed

theorem extract_text_first_text_block_witness:
  "extract_text_from_response ex_tool_response = ''Let me search.''
   \<and> extract_text_from_response \<lparr>stop_reason = ''tool_use'', content = [tool_use_block ''t1'' ''n'' []]\<rparr>
       = ''No text content in response''
   \<and> extract_text_guarded (Inl ''boom'') = ''Error extracting response text: boom''"
proof -
  have a: "extract_text_from_response ex_tool_response = ''Let me search.''"
    using extract_text_first_text_block
      [of ex_tool_response "[tool_use_block ''t1'' ''get_course_outline'' [(''course_name'', JStr ''MCP'')]]"
          "text_block ''Let me search.''"
          "[tool_use_block ''t2'' ''search_course_content'' [(''query'', JStr ''rag''), (''lesson_number'', JInt 2)],
            text_block ''second'']" "''Let me search.''" "[]"]
    by (simp add: ex_tool_response_def text_block_def tool_use_block_def)
  have b: "extract_text_from_response \<lparr>stop_reason = ''tool_use'', content = [tool_use_block ''t1'' ''n'' []]\<rparr>
       = ''No text content in response''"
    using extract_text_first_text_block
      [of "\<lparr>stop_reason = ''tool_use'', content = [tool_use_block ''t1'' ''n'' []]\<rparr>" "[]" "text_block []" "[]" "[]" "[]"]
    by (simp add: tool_use_block_def)
  have c: "extract_text_guarded (Inl ''boom'') = ''Error extracting response text: boom''"
    using extract_text_first_text_block [of ex_tool_response "[]" "text_block []" "[]" "[]" "''boom''"]
    by simp
  from a b c show ?thesis by simp
qed

text \<open>
  C7. When a tool round appends its user message, that message holds exactly one tool
  result per tool-use block of the assistant response, each carrying the id of its
  block, in the order of the blocks.
\<close>

theorem tool_round_results_follow_blocks:
  assumes "execute_tool_round response messages tm w tr = (executed, messages', w', tr')"
    and "executed"
  shows "\<exists>rs. messages' = messages @ [\<lparr>role = ''assistant'', msg_content = Blocks (content response)\<rparr>,
                                       \<lparr>role = ''user'', msg_content = ToolResults rs\<rparr>]
            \<and> length rs = length (filter is_tool_use (content response))
            \<and> map tool_use_id rs = map block_id (filter is_tool_use (content response))
            \<and> list_all (\<lambda>r. result_type r = ''tool_result'') rs"
proof -
  obtain rs w1 tr1 where tl: "tool_loop tm (content response) [] w tr = (rs, w1, tr1)"
    by (metis prod_cases3)
  from assms tl have m: "messages' = messages @ [\<lparr>role = ''assistant'', msg_content = Blocks (content response)\<rparr>,
                                       \<lparr>role = ''user'', msg_content = ToolResults rs\<rparr>]"
    by (auto simp: execute_tool_round_def Let_def split: if_splits)
  have ids: "map tool_use_id rs = map block_id (filter is_tool_use (content response))"
    using tool_loop_ids [OF tl] by simp
  then have "length (map tool_use_id rs) = length (map block_id (filter is_tool_use (content response)))"
    by simp
  then have len: "length rs = length (filter is_tool_use (content response))" by simp
  have ty: "list_all (\<lambda>r. result_type r = ''tool_result'') rs"
    using tool_loop_types [OF tl] by simp
  from m len ids ty show ?thesis by blast
qed

theorem tool_round_results_follow_blocks_witness:
  "\<exists>rs. [\<lparr>role = ''assistant'', msg_content = Blocks (content ex_tool_response)\<rparr>,
         \<lparr>role = ''user'', msg_content = ToolResults
            [\<lparr>result_type = ''tool_result'', tool_use_id = ''t1'',
              result_content = ''Error executing tool: outline unavailable''\<rparr>,
             \<lparr>result_type = ''tool_result'', tool_use_id = ''t2'',
              result_content = ''search result''\<rparr>]\<rparr>]
        = [] @ [\<lparr>role = ''assistant'', msg_content = Blocks (content ex_tool_response)\<rparr>,
                \<lparr>role = ''user'', msg_content = ToolResults rs\<rparr>]
      \<and> length rs = length (filter is_tool_use (content ex_tool_response))
      \<and> map tool_use_id rs = map block_id (filter is_tool_use (content ex_tool_response))
      \<and> list_all (\<lambda>r. result_type r = ''tool_result'') rs"
proof -
  have run: "execute_tool_round ex_tool_response [] ex_tool_manager (0::nat) [] =
    (True,
     [\<lparr>role = ''assistant'', msg_content = Blocks (content ex_tool_response)\<rparr>,
      \<lparr>role = ''user'', msg_content = ToolResults
            [\<lparr>result_type = ''tool_result'', tool_use_id = ''t1'',
              result_content = ''Error executing tool: outline unavailable''\<rparr>,
             \<lparr>result_type = ''tool_result'', tool_use_id = ''t2'',
              result_content = ''search result''\<rparr>]\<rparr>],
     0,
     [ToolCall ''get_course_outline'' [(''course_name'', JStr ''MCP'')],
      ToolCall ''search_course_content'' [(''query'', JStr ''rag''), (''lesson_number'', JInt 2)]])"
    by (simp add: execute_tool_round_def ex_tool_response_def ex_tool_manager_def
          tool_use_block_def text_block_def)
  show ?thesis
    by (rule tool_round_results_follow_blocks [OF run]) simp
qed

text \<open>
  C1. With \<^verbatim>\<open>max_rounds = k\<close>, \<open>k \<ge> 0\<close>, and any LLM client and tool manager, a run
  issues at most \<open>k\<close> LLM calls that offer the tool catalog and at most \<open>k + 1\<close> LLM
  calls in all. The run always terminates: \<open>loop\<close> is a total function, by the
  termination proof that comes with its definition, on the measure
  \<^verbatim>\<open>max_rounds - rounds_completed\<close>.
\<close>

theorem round_budget_respected:
  "length (filter offers_tools
      (llm_requests (out_trace (generate_response g query history tools tm (int k) w)))) \<le> k
   \<and> length (llm_requests (out_trace (generate_response g query history tools tm (int k) w)))
       \<le> k + 1"
  using loop_call_bounds [of g "system_content_of g history" tools tm "int k" 0
      "[\<lparr>role = ''user'', msg_content = Text query\<rparr>]" w "[]"]
  by (simp add: generate_response_def)

theorem round_budget_respected_witness:
  "length (filter offers_tools
      (llm_requests (out_trace (generate_response (ex_generator eager_client) ''q'' None
         (Some ex_tools) (Some ex_tool_manager) 2 0)))) = 2
   \<and> length (llm_requests (out_trace (generate_response (ex_generator eager_client) ''q'' None
         (Some ex_tools) (Some ex_tool_manager) 2 0))) = 3"
proof -
  have "2 \<le> length (filter offers_tools
      (llm_requests (out_trace (generate_response (ex_generator eager_client) ''q'' None
         (Some ex_tools) (Some ex_tool_manager) 2 0))))"
    by (simp add: run_eval ex_eval offers_tools_def)
  moreover have "3 \<le> length (llm_requests (out_trace (generate_response (ex_generator eager_client) ''q'' None
         (Some ex_tools) (Some ex_tool_manager) 2 0)))"
    by (simp add: run_eval ex_eval)
  ultimately show ?thesis
    using round_budget_respected [of "ex_generator eager_client" "''q''" None "Some ex_tools"
        "Some ex_tool_manager" 2 0]
    by simp
qed

text \<open>
  C5. When the loop exits with \<^verbatim>\<open>rounds_completed\<close> equal to \<^verbatim>\<open>max_rounds\<close>, exactly one
  further LLM call is issued, with the accumulated messages and the system content and
  without tool catalog; when that call raises, the run returns
  \<^verbatim>\<open>Error generating final response: \<close> followed by the description of the error, and
  otherwise the text extracted from the response. With \<^verbatim>\<open>max_rounds = 0\<close> this call is
  the only call of the run.
\<close>

theorem final_call_without_tools:
  "out_trace (loop g sc tools tm k k ms w tr) =
     tr @ [LLMCall \<lparr>req_model = model g, req_temperature = 0, req_max_tokens = 800,
                     req_messages = ms, req_system = sc, req_tools = None,
                     req_tool_choice = None\<rparr>]
   \<and> (client g (final_params g sc ms) w = (Inl e, w1) \<longrightarrow>
        answer (loop g sc tools tm k k ms w tr) = ''Error generating final response: '' @ e)
   \<and> (client g (final_params g sc ms) w = (Inr final_response, w1) \<longrightarrow>
        answer (loop g sc tools tm k k ms w tr) = extract_text_from_response final_response)
   \<and> out_rounds (loop g sc tools tm k k ms w tr) = k
   \<and> out_trace (generate_response g query history tools tm 0 w) =
        [LLMCall \<lparr>req_model = model g, req_temperature = 0, req_max_tokens = 800,
                  req_messages = [\<lparr>role = ''user'', msg_content = Text query\<rparr>],
                  req_system = system_content_of g history, req_tools = None,
                  req_tool_choice = None\<rparr>]"
proof -
  have nlt: "\<not> k < k" "\<not> (0::int) < 0" by simp_all
  have a: "out_trace (loop g sc tools tm k k ms w tr) = tr @ [LLMCall (final_params g sc ms)]"
    by (rule loop_exit_trace [OF nlt(1)])
  have b: "client g (final_params g sc ms) w = (Inl e, w1) \<longrightarrow>
        answer (loop g sc tools tm k k ms w tr) = ''Error generating final response: '' @ e"
    by (simp add: loop_exit [OF nlt(1)])
  have c: "client g (final_params g sc ms) w = (Inr final_response, w1) \<longrightarrow>
        answer (loop g sc tools tm k k ms w tr) = extract_text_from_response final_response"
    by (simp add: loop_exit [OF nlt(1)])
  have d: "out_rounds (loop g sc tools tm k k ms w tr) = k"
    by (simp add: loop_exit [OF nlt(1)] split: prod.splits sum.splits)
  have e: "out_trace (generate_response g query history tools tm 0 w) =
      [] @ [LLMCall (final_params g (system_content_of g history)
                       [\<lparr>role = ''user'', msg_content = Text query\<rparr>])]"
    unfolding generate_response_def by (rule loop_exit_trace [OF nlt(2)])
  from a b c d e show ?thesis by (simp add: final_params_def)
qed

theorem final_call_without_tools_witness:
  "answer (generate_response (ex_generator eager_client) ''q'' None (Some ex_tools)
             (Some ex_tool_manager) 0 0) = ''Let me search.''
   \<and> answer (generate_response (ex_generator failing_client) ''q'' None (Some ex_tools)
             (Some ex_tool_manager) 0 0) = ''Error generating final response: connection refused''"
proof -
  have a: "client (ex_generator eager_client)
          (final_params (ex_generator eager_client) ''You are an AI assistant.''
             [\<lparr>role = ''user'', msg_content = Text ''q''\<rparr>]) 0 = (Inr ex_tool_response, 1)"
    by (simp add: ex_generator_def eager_client_def)
  have b: "client (ex_generator failing_client)
          (final_params (ex_generator failing_client) ''You are an AI assistant.''
             [\<lparr>role = ''user'', msg_content = Text ''q''\<rparr>]) 0 = (Inl ''connection refused'', 1)"
    by (simp add: ex_generator_def failing_client_def)
  have sc: "system_content_of (ex_generator c) None = ''You are an AI assistant.''" for c
    by (simp add: system_content_of_def ex_generator_def)
  have x: "extract_text_from_response ex_tool_response = ''Let me search.''"
    by (simp add: run_eval ex_eval)
  from final_call_without_tools [of "ex_generator eager_client" "''You are an AI assistant.''"
      "Some ex_tools" "Some ex_tool_manager" 0 "[\<lparr>role = ''user'', msg_content = Text ''q''\<rparr>]" 0 "[]"
      "[]" 1 ex_tool_response "''q''" None] a x
  have 1: "answer (generate_response (ex_generator eager_client) ''q'' None (Some ex_tools)
             (Some ex_tool_manager) 0 0) = ''Let me search.''"
    by (simp add: generate_response_def sc)
  from final_call_without_tools [of "ex_generator failing_client" "''You are an AI assistant.''"
      "Some ex_tools" "Some ex_tool_manager" 0 "[\<lparr>role = ''user'', msg_content = Text ''q''\<rparr>]" 0 "[]"
      "''connection refused''" 1 ex_tool_response "''q''" None] b
  have 2: "answer (generate_response (ex_generator failing_client) ''q'' None (Some ex_tools)
             (Some ex_tool_manager) 0 0) = ''Error generating final response: connection refused''"
    by (simp add: generate_response_def sc)
  from 1 2 show ?thesis by simp
qed

text \<open>
  C9. When a response signals tool use and holds no block of type \<^verbatim>\<open>tool_use\<close>, the run
  ends at once: it returns the text extracted from that response (the sentinel when no
  block has a text), no LLM call and no tool execution follows the call that gave the
  response, and \<^verbatim>\<open>rounds_completed\<close> is not incremented.
\<close>

theorem degenerate_round_ends_run:
  assumes "rc < k"
    and "client g (api_params g sc tools (Some m) ms) w = (Inr response, w1)"
    and "stop_reason response = ''tool_use''"
    and "filter is_tool_use (content response) = []"
  shows "answer (loop g sc tools (Some m) k rc ms w tr) = extract_text_from_response response
     \<and> (list_all (\<lambda>b. block_text b = None) (content response) \<longrightarrow>
          answer (loop g sc tools (Some m) k rc ms w tr) = ''No text content in response'')
     \<and> out_trace (loop g sc tools (Some m) k rc ms w tr)
          = tr @ [LLMCall (api_params g sc tools (Some m) ms)]
     \<and> out_rounds (loop g sc tools (Some m) k rc ms w tr) = rc"
proof -
  have r: "execute_tool_round response ms m w1 (tr @ [LLMCall (api_params g sc tools (Some m) ms)])
      = (False, ms @ [\<lparr>role = ''assistant'', msg_content = Blocks (content response)\<rparr>], w1,
         tr @ [LLMCall (api_params g sc tools (Some m) ms)])"
    by (rule execute_tool_round_none [OF assms(4)])
  note l = loop_degenerate [OF assms(1,2,3) r]
  have s: "list_all (\<lambda>b. block_text b = None) (content response) \<longrightarrow>
      extract_text_from_response response = ''No text content in response''"
  proof
    assume "list_all (\<lambda>b. block_text b = None) (content response)"
    then have "\<forall>x\<in>set (content response). block_text x = None" by (simp add: list_all_iff)
    then have "first_text (content response @ []) = first_text []" by (rule first_text_skip)
    then show "extract_text_from_response response = ''No text content in response''"
      by (simp add: extract_text_from_response_def extract_text_guarded_def)
  qed
  from l s show ?thesis by simp
qed

theorem degenerate_round_ends_run_witness:
  "answer (generate_response (ex_generator degenerate_client) ''q'' None (Some ex_tools)
             (Some ex_tool_manager) 2 0) = ''partial answer''
   \<and> length (llm_requests (out_trace (generate_response (ex_generator degenerate_client) ''q'' None
        (Some ex_tools) (Some ex_tool_manager) 2 0))) = 1
   \<and> out_rounds (generate_response (ex_generator degenerate_client) ''q'' None (Some ex_tools)
             (Some ex_tool_manager) 2 0) = 0"
proof -
  let ?g = "ex_generator degenerate_client"
  let ?ms = "[\<lparr>role = ''user'', msg_content = Text ''q''\<rparr>]"
  let ?r = "\<lparr>stop_reason = ''tool_use'', content = [text_block ''partial answer'']\<rparr>"
  have lt: "(0::int) < 2" by simp
  have c: "client ?g (api_params ?g ''You are an AI assistant.'' (Some ex_tools) (Some ex_tool_manager) ?ms) 0
      = (Inr ?r, 1)"
    by (simp add: ex_generator_def degenerate_client_def)
  have sr: "stop_reason ?r = ''tool_use''" by simp
  have f: "filter is_tool_use (content ?r) = []" by (simp add: is_tool_use_def text_block_def)
  have sc: "system_content_of ?g None = ''You are an AI assistant.''"
    by (simp add: system_content_of_def ex_generator_def)
  have x: "extract_text_from_response ?r = ''partial answer''"
    by (simp add: run_eval ex_eval)
  from degenerate_round_ends_run [OF lt c sr f, of "[]"] x show ?thesis
    by (simp add: generate_response_def sc)
qed

text \<open>
  C10. A run with the empty tool catalog is the same as a run with \<^verbatim>\<open>tools = None\<close>, for
  every query, history, tool manager and \<^verbatim>\<open>max_rounds\<close>: the same requests are sent and
  the same result is returned, and no request carries a tool catalog or a tool choice.
\<close>

theorem empty_catalog_same_as_none:
  "generate_response g query history (Some []) tm k w = generate_response g query history None tm k w
   \<and> list_all no_catalog
        (llm_requests (out_trace (generate_response g query history (Some []) tm k w)))"
proof -
  have "api_params g sc (Some []) tm ms = api_params g sc None tm ms" for sc ms
    by (simp add: api_params_def tools_truthy_def)
  then have "loop g sc (Some []) tm k rc ms w tr = loop g sc None tm k rc ms w tr" for sc rc ms tr
    by (rule loop_tools_cong)
  moreover have "list_all no_catalog (llm_requests (out_trace (loop g sc (Some []) tm k rc ms w [])))"
    for sc rc ms
    by (rule loop_no_catalog) (simp_all add: tools_truthy_def)
  ultimately show ?thesis by (simp add: generate_response_def)
qed

text \<open>
  C3. When an LLM call inside the loop raises, the run does not raise: it returns at
  once the string \<^verbatim>\<open>Error generating response: \<close> followed by the description of the
  error. The failing call is the last event of the run: no LLM call and no tool
  execution follows it. The statement is about the loop from any state, and with it
  about every iteration of every run, which enters the loop at
  \<^verbatim>\<open>rounds_completed = 0\<close> with the query as the only message.
\<close>

theorem transport_error_in_loop:
  assumes "rc < k"
    and "client g (api_params g sc tools tm ms) w = (Inl e, w1)"
  shows "answer (loop g sc tools tm k rc ms w tr) = ''Error generating response: '' @ e
     \<and> out_trace (loop g sc tools tm k rc ms w tr) = tr @ [LLMCall (api_params g sc tools tm ms)]
     \<and> out_messages (loop g sc tools tm k rc ms w tr) = ms
     \<and> out_rounds (loop g sc tools tm k rc ms w tr) = rc
     \<and> out_world (loop g sc tools tm k rc ms w tr) = w1"
  using assms by (simp add: loop_error)

theorem transport_error_in_loop_witness:
  "answer (generate_response (ex_generator failing_client) ''q'' None (Some ex_tools)
             (Some ex_tool_manager) 2 0) = ''Error generating response: connection refused''
   \<and> length (llm_requests (out_trace (generate_response (ex_generator failing_client) ''q'' None
        (Some ex_tools) (Some ex_tool_manager) 2 0))) = 1
   \<and> tool_calls (out_trace (generate_response (ex_generator failing_client) ''q'' None
        (Some ex_tools) (Some ex_tool_manager) 2 0)) = []"
proof -
  let ?g = "ex_generator failing_client"
  let ?ms = "[\<lparr>role = ''user'', msg_content = Text ''q''\<rparr>]"
  have lt: "(0::int) < 2" by simp
  have c: "client ?g (api_params ?g ''You are an AI assistant.'' (Some ex_tools) (Some ex_tool_manager) ?ms) 0
      = (Inl ''connection refused'', 1)"
    by (simp add: ex_generator_def failing_client_def)
  have sc: "system_content_of ?g None = ''You are an AI assistant.''"
    by (simp add: system_content_of_def ex_generator_def)
  from transport_error_in_loop [OF lt c, of "[]"] show ?thesis
    by (simp add: generate_response_def sc)
qed

text \<open>
  C6. When the tool manager raises on a block of type \<^verbatim>\<open>tool_use\<close>, the round is not
  aborted and the run does not raise: the result for that block has the content
  \<^verbatim>\<open>Error executing tool: \<close> followed by the description of the error, the blocks
  before and after it are processed as usual, every block of type \<^verbatim>\<open>tool_use\<close> of the
  response is executed, and the run goes on with the next iteration of the loop.
\<close>

theorem tool_error_keeps_round_going:
  assumes "rc < k"
    and "client g (api_params g sc tools (Some m) ms) w = (Inr response, w1)"
    and "stop_reason response = ''tool_use''"
    and "content response = pre @ b # post"
    and "is_tool_use b"
    and "tool_loop m pre [] w1 (tr @ [LLMCall (api_params g sc tools (Some m) ms)]) = (rs1, w2, tr2)"
    and "m (block_name b) (block_input b) w2 = (Inl e, w3)"
    and "tool_loop m post [] w3 (tr2 @ [ToolCall (block_name b) (block_input b)]) = (rs3, w4, tr4)"
  shows "loop g sc tools (Some m) k rc ms w tr =
           loop g sc tools (Some m) k (rc + 1)
             (ms @ [\<lparr>role = ''assistant'', msg_content = Blocks (content response)\<rparr>,
                    \<lparr>role = ''user'', msg_content = ToolResults
                       (rs1 @ \<lparr>result_type = ''tool_result'', tool_use_id = block_id b,
                                result_content = ''Error executing tool: '' @ e\<rparr> # rs3)\<rparr>])
             w4 tr4
     \<and> tool_calls tr4 = tool_calls tr
          @ map (\<lambda>b. (block_name b, block_input b)) (filter is_tool_use (content response))
     \<and> length (rs1 @ \<lparr>result_type = ''tool_result'', tool_use_id = block_id b,
                        result_content = ''Error executing tool: '' @ e\<rparr> # rs3)
          = length (filter is_tool_use (content response))"
proof -
  let ?tr1 = "tr @ [LLMCall (api_params g sc tools (Some m) ms)]"
  let ?rs = "rs1 @ \<lparr>result_type = ''tool_result'', tool_use_id = block_id b,
                     result_content = ''Error executing tool: '' @ e\<rparr> # rs3"
  have tl: "tool_loop m (content response) [] w1 ?tr1 = (?rs, w4, tr4)"
    unfolding assms(4) by (rule tool_loop_failing_block [OF assms(5,6,7,8)])
  have r: "execute_tool_round response ms m w1 ?tr1 =
      (True, ms @ [\<lparr>role = ''assistant'', msg_content = Blocks (content response)\<rparr>,
                   \<lparr>role = ''user'', msg_content = ToolResults ?rs\<rparr>], w4, tr4)"
    by (simp add: execute_tool_round_def tl)
  have a: "loop g sc tools (Some m) k rc ms w tr =
           loop g sc tools (Some m) k (rc + 1)
             (ms @ [\<lparr>role = ''assistant'', msg_content = Blocks (content response)\<rparr>,
                    \<lparr>role = ''user'', msg_content = ToolResults ?rs\<rparr>]) w4 tr4"
    by (rule loop_round [OF assms(1,2,3) r])
  have b: "tool_calls tr4 = tool_calls tr
          @ map (\<lambda>b. (block_name b, block_input b)) (filter is_tool_use (content response))"
    using tool_loop_calls [OF tl] by simp
  have "map tool_use_id ?rs = map block_id (filter is_tool_use (content response))"
    using tool_loop_ids [OF tl] by simp
  then have "length (map tool_use_id ?rs) = length (map block_id (filter is_tool_use (content response)))"
    by simp
  then have c: "length ?rs = length (filter is_tool_use (content response))"
    by (simp only: length_map)
  from a b c show ?thesis by blast
qed


theorem tool_error_keeps_round_going_witness:
  "generate_response (ex_generator polite_client) ''q'' None (Some ex_tools) (Some ex_tool_manager) 1 0
     = loop (ex_generator polite_client) ''You are an AI assistant.'' (Some ex_tools)
         (Some ex_tool_manager) 1 1
         [\<lparr>role = ''user'', msg_content = Text ''q''\<rparr>,
          \<lparr>role = ''assistant'', msg_content = Blocks (content ex_tool_response)\<rparr>,
          \<lparr>role = ''user'', msg_content = ToolResults
             [\<lparr>result_type = ''tool_result'', tool_use_id = ''t1'',
               result_content = ''Error executing tool: outline unavailable''\<rparr>,
              \<lparr>result_type = ''tool_result'', tool_use_id = ''t2'',
               result_content = ''search result''\<rparr>]\<rparr>]
         1
         [LLMCall (api_params (ex_generator polite_client) ''You are an AI assistant.''
                     (Some ex_tools) (Some ex_tool_manager)
                     [\<lparr>role = ''user'', msg_content = Text ''q''\<rparr>]),
          ToolCall ''get_course_outline'' [(''course_name'', JStr ''MCP'')],
          ToolCall ''search_course_content'' [(''query'', JStr ''rag''), (''lesson_number'', JInt 2)]]
   \<and> answer (generate_response (ex_generator polite_client) ''q'' None (Some ex_tools)
        (Some ex_tool_manager) 1 0) = ''The answer.''"
proof -
  let ?g = "ex_generator polite_client"
  let ?ms = "[\<lparr>role = ''user'', msg_content = Text ''q''\<rparr>]"
  let ?req = "api_params ?g ''You are an AI assistant.'' (Some ex_tools) (Some ex_tool_manager) ?ms"
  let ?b = "tool_use_block ''t1'' ''get_course_outline'' [(''course_name'', JStr ''MCP'')]"
  let ?post = "[text_block ''Let me search.'',
         tool_use_block ''t2'' ''search_course_content''
           [(''query'', JStr ''rag''), (''lesson_number'', JInt 2)],
         text_block ''second'']"
  have lt: "(0::int) < 1" by simp
  have c: "client ?g ?req 0 = (Inr ex_tool_response, 1)"
    by (simp add: ex_generator_def polite_client_def api_params_def tools_truthy_def ex_tools_def)
  have sr: "stop_reason ex_tool_response = ''tool_use''" by (simp add: ex_tool_response_def)
  have ct: "content ex_tool_response = [] @ ?b # ?post" by (simp add: ex_tool_response_def)
  have tu: "is_tool_use ?b" by (simp add: is_tool_use_def tool_use_block_def)
  have pre: "tool_loop ex_tool_manager [] [] 1 ([] @ [LLMCall ?req]) = ([], 1, [LLMCall ?req])"
    by simp
  have fail: "ex_tool_manager (block_name ?b) (block_input ?b) 1 = (Inl ''outline unavailable'', 1)"
    by (simp add: ex_tool_manager_def tool_use_block_def)
  have post: "tool_loop ex_tool_manager ?post [] 1
        ([LLMCall ?req] @ [ToolCall (block_name ?b) (block_input ?b)])
      = ([\<lparr>result_type = ''tool_result'', tool_use_id = ''t2'', result_content = ''search result''\<rparr>],
         1,
         [LLMCall ?req, ToolCall ''get_course_outline'' [(''course_name'', JStr ''MCP'')],
          ToolCall ''search_course_content'' [(''query'', JStr ''rag''), (''lesson_number'', JInt 2)]])"
    by (simp add: ex_tool_manager_def tool_use_block_def text_block_def)
  have sc: "system_content_of ?g None = ''You are an AI assistant.''"
    by (simp add: system_content_of_def ex_generator_def)
  have ans: "answer (generate_response ?g ''q'' None (Some ex_tools) (Some ex_tool_manager) 1 0)
      = ''The answer.''"
    by (simp add: run_eval ex_eval)
  from tool_error_keeps_round_going [OF lt c sr ct tu pre fail post] ans show ?thesis
    by (simp add: generate_response_def sc tool_use_block_def)
qed

text \<open>
  C4. In every run the message list sent with the \<open>i\<close>-th LLM call, that is after \<open>i\<close>
  completed tool rounds, starts with the user message that holds the query, alternates
  between the roles user and assistant, and ends with the initial user message
  (\<open>i = 0\<close>) or with a user message of tool results (\<open>i \<ge> 1\<close>). Messages are only
  appended: the list of an earlier call is a prefix of the list of every later call and
  of the list at the return. The roles alternate in the list at the return as well, and
  the number of LLM calls is the number of completed rounds plus one.
\<close>

theorem conversation_alternates:
  "(\<forall>i<length (llm_requests (out_trace (generate_response g query history tools tm k w))).
       conversation_ok query i
         (req_messages (llm_requests (out_trace (generate_response g query history tools tm k w)) ! i))
       \<and> prefix
           (req_messages (llm_requests (out_trace (generate_response g query history tools tm k w)) ! i))
           (out_messages (generate_response g query history tools tm k w))
       \<and> (\<forall>j\<le>i. prefix
           (req_messages (llm_requests (out_trace (generate_response g query history tools tm k w)) ! j))
           (req_messages (llm_requests (out_trace (generate_response g query history tools tm k w)) ! i))))
   \<and> roles_alternate ''user'' (out_messages (generate_response g query history tools tm k w))
   \<and> int (length (llm_requests (out_trace (generate_response g query history tools tm k w))))
       = out_rounds (generate_response g query history tools tm k w) + 1"
proof -
  let ?R = "generate_response g query history tools tm k w"
  let ?ms = "\<lambda>i. req_messages (llm_requests (out_trace ?R) ! i)"
  have main: "(\<forall>i<length (llm_requests (out_trace ?R)).
       conversation_ok query i (?ms i) \<and> prefix (?ms i) (out_messages ?R))
     \<and> roles_alternate ''user'' (out_messages ?R)
     \<and> int (length (llm_requests (out_trace ?R))) = out_rounds ?R + 1"
    unfolding generate_response_def
    by (rule loop_conversation) (simp_all add: conversation_ok_initial)
  have chain: "prefix (?ms j) (?ms i)" if "i < length (llm_requests (out_trace ?R))" "j \<le> i" for i j
  proof -
    from that have j: "j < length (llm_requests (out_trace ?R))" by simp
    from main that(1) have pi: "prefix (?ms i) (out_messages ?R)" and li: "length (?ms i) = 2 * i + 1"
      by (simp_all add: conversation_ok_def)
    from main j have pj: "prefix (?ms j) (out_messages ?R)" and lj: "length (?ms j) = 2 * j + 1"
      by (simp_all add: conversation_ok_def)
    from li lj that(2) have "length (?ms j) \<le> length (?ms i)" by simp
    with pj pi show ?thesis by (rule prefix_length_prefix)
  qed
  from main chain show ?thesis by blast
qed

theorem conversation_alternates_witness:
  "2 < length (llm_requests (out_trace (generate_response (ex_generator eager_client) ''q'' None
          (Some ex_tools) (Some ex_tool_manager) 2 0)))
   \<and> conversation_ok ''q'' 2
       (req_messages (llm_requests (out_trace (generate_response (ex_generator eager_client) ''q'' None
          (Some ex_tools) (Some ex_tool_manager) 2 0)) ! 2))
   \<and> roles_alternate ''user'' (out_messages (generate_response (ex_generator eager_client) ''q'' None
          (Some ex_tools) (Some ex_tool_manager) 2 0))
   \<and> out_rounds (generate_response (ex_generator eager_client) ''q'' None
          (Some ex_tools) (Some ex_tool_manager) 2 0) = 2"
proof -
  let ?R = "generate_response (ex_generator eager_client) ''q'' None
          (Some ex_tools) (Some ex_tool_manager) 2 0"
  have len: "length (llm_requests (out_trace ?R)) = 3"
    by (simp add: run_eval ex_eval)
  from conversation_alternates [of "ex_generator eager_client" "''q''" None "Some ex_tools"
      "Some ex_tool_manager" 2 0] len
  show ?thesis by simp
qed

text \<open>
  C2, as the code has it. A run with \<^verbatim>\<open>tools\<close> and without tool manager is the same as
  a run with neither: no call offers a tool catalog and no tool is executed. A run with
  a tool manager and without \<^verbatim>\<open>tools\<close> offers no tool catalog in any call; it is the
  same as a run with neither when no response of the client reports the stop reason
  \<^verbatim>\<open>tool_use\<close>.
\<close>

theorem lone_tools_or_executor:
  "generate_response g query history (Some ts) None k w
       = generate_response g query history None None k w
   \<and> tool_calls (out_trace (generate_response g query history (Some ts) None k w)) = []
   \<and> list_all no_catalog
        (llm_requests (out_trace (generate_response g query history (Some ts) None k w)))
   \<and> list_all no_catalog
        (llm_requests (out_trace (generate_response g query history None (Some m) k w)))
   \<and> ((\<forall>req w0 r w1. client g req w0 = (Inr r, w1) \<longrightarrow> stop_reason r \<noteq> ''tool_use'') \<longrightarrow>
        generate_response g query history None (Some m) k w
          = generate_response g query history None None k w)"
proof -
  let ?sc = "system_content_of g history"
  let ?ms = "[\<lparr>role = ''user'', msg_content = Text query\<rparr>]"
  have "api_params g ?sc (Some ts) None ms = api_params g ?sc None None ms" for ms
    by (simp add: api_params_def)
  then have a: "loop g ?sc (Some ts) None k 0 ?ms w [] = loop g ?sc None None k 0 ?ms w []"
    by (rule loop_tools_cong)
  have b: "tool_calls (out_trace (loop g ?sc (Some ts) None k 0 ?ms w [])) = []"
    by (simp add: loop_no_manager_calls)
  have c: "list_all no_catalog (llm_requests (out_trace (loop g ?sc (Some ts) None k 0 ?ms w [])))"
    by (rule loop_no_catalog) simp_all
  have d: "list_all no_catalog (llm_requests (out_trace (loop g ?sc None (Some m) k 0 ?ms w [])))"
    by (rule loop_no_catalog) (simp_all add: tools_truthy_def)
  have e: "(\<forall>req w0 r w1. client g req w0 = (Inr r, w1) \<longrightarrow> stop_reason r \<noteq> ''tool_use'') \<longrightarrow>
      loop g ?sc None (Some m) k 0 ?ms w [] = loop g ?sc None None k 0 ?ms w []"
  proof
    assume q: "\<forall>req w0 r w1. client g req w0 = (Inr r, w1) \<longrightarrow> stop_reason r \<noteq> ''tool_use''"
    show "loop g ?sc None (Some m) k 0 ?ms w [] = loop g ?sc None None k 0 ?ms w []"
      by (rule loop_manager_unused) (use q in \<open>auto simp: tools_truthy_def\<close>)
  qed
  from a b c d e show ?thesis unfolding generate_response_def by blast
qed

theorem lone_tools_or_executor_witness:
  "generate_response (ex_generator plain_client) ''q'' None None (Some ex_tool_manager) 2 0
     = generate_response (ex_generator plain_client) ''q'' None None None 2 0
   \<and> generate_response (ex_generator eager_client) ''q'' None (Some ex_tools) None 2 0
     = generate_response (ex_generator eager_client) ''q'' None None None 2 0
   \<and> answer (generate_response (ex_generator plain_client) ''q'' None None (Some ex_tool_manager) 2 0)
     = ''The answer.''"
proof -
  have q: "\<forall>req w0 r w1. client (ex_generator plain_client) req w0 = (Inr r, w1)
      \<longrightarrow> stop_reason r \<noteq> ''tool_use''"
    by (auto simp: ex_generator_def plain_client_def ex_text_response_def)
  have a: "answer (generate_response (ex_generator plain_client) ''q'' None None (Some ex_tool_manager) 2 0)
     = ''The answer.''"
    by (simp add: run_eval ex_eval)
  from lone_tools_or_executor [of "ex_generator plain_client" "''q''" None ex_tools 2 0 ex_tool_manager]
    lone_tools_or_executor [of "ex_generator eager_client" "''q''" None ex_tools 2 0 ex_tool_manager]
    q a
  show ?thesis by simp
qed

text \<open>
  C2 as written, that a run with only one of \<^verbatim>\<open>tools\<close> and the tool manager never
  executes a tool whatever stop reason the LLM reports, fails: the loop enters a tool
  round on \<^verbatim>\<open>stop_reason == "tool_use" and tool_manager\<close>, without looking at
  \<^verbatim>\<open>tools\<close>. With a tool manager and \<^verbatim>\<open>tools = None\<close>, a response that reports
  \<^verbatim>\<open>tool_use\<close> has its two blocks of type \<^verbatim>\<open>tool_use\<close> executed and a second LLM call
  follows, where the run with neither executes nothing and makes one call.
\<close>

theorem executor_without_tools_counterexample:
  "tool_calls (out_trace (generate_response (ex_generator eager_client) ''q'' None None
      (Some ex_tool_manager) 1 0))
     = [(''get_course_outline'', [(''course_name'', JStr ''MCP'')]),
        (''search_course_content'', [(''query'', JStr ''rag''), (''lesson_number'', JInt 2)])]
   \<and> tool_calls (out_trace (generate_response (ex_generator eager_client) ''q'' None None
      None 1 0)) = []
   \<and> length (llm_requests (out_trace (generate_response (ex_generator eager_client) ''q'' None None
      (Some ex_tool_manager) 1 0))) = 2
   \<and> length (llm_requests (out_trace (generate_response (ex_generator eager_client) ''q'' None None
      None 1 0))) = 1"
  by (simp add: run_eval ex_eval)

end
